theory Spec2Isabelle
  imports Complex_Main "HOL-Library.Sublist"
begin

section \<open>Values of the Python program\<close>

text \<open>
  \<^verbatim>\<open>response.json()\<close> hands the program a decoded JSON document; the song records
  are entries of it. A JSON object is an association list, looked up with \<open>map_of\<close>.
  A finite Python float is modelled by the rational number it denotes: the program
  only compares numbers (\<^verbatim>\<open><\<close>, \<^verbatim>\<open>>\<close>) and tests them for truth, and on finite floats
  and ints Python does both exactly. NaN and the infinities are not modelled.
\<close>

datatype json =
    JNull
  | JBool bool
  | JInt int
  | JFloat rat
  | JStr string
  | JList "json list"
  | JObj "(string \<times> json) list"

text \<open>The exceptions of the program that \<^verbatim>\<open>except RequestException\<close> does not catch.\<close>

datatype py_error = AttributeError | TypeError

text \<open>\<^verbatim>\<open>d.get(key, default)\<close>: only a dict has the method.\<close>

definition dict_get :: "json \<Rightarrow> string \<Rightarrow> json \<Rightarrow> py_error + json" where
  "dict_get d key dflt =
     (case d of
        JObj kvs \<Rightarrow> (case map_of kvs key of None \<Rightarrow> Inr dflt | Some v \<Rightarrow> Inr v)
      | _ \<Rightarrow> Inl AttributeError)"

text \<open>
  \<^verbatim>\<open>v.lower()\<close>; only a str has the method. \<^verbatim>\<open>str.lower\<close> is a built-in of Python that
  follows the case tables of Unicode, which are no part of the program: it is the
  parameter \<open>lower\<close> of the model. What is proved holds for every lowering; the genre
  filter needs of it that the empty string stays empty and that the non-empty filter
  stays non-empty, as with \<^verbatim>\<open>str.lower\<close>.
\<close>

definition json_lower :: "(string \<Rightarrow> string) \<Rightarrow> json \<Rightarrow> py_error + string" where
  "json_lower lower v = (case v of JStr s \<Rightarrow> Inr (lower s) | _ \<Rightarrow> Inl AttributeError)"

text \<open>
  What \<^verbatim>\<open>str.lower\<close> does on ASCII text, where the letters \<open>A\<close> to \<open>Z\<close> (codes 65 to
  90) move 32 up and every other character stays: the lowering of the examples, which
  are ASCII text.
\<close>

definition ascii_lower_char :: "char \<Rightarrow> char" where
  "ascii_lower_char c =
     (if 65 \<le> (of_char c :: nat) \<and> (of_char c :: nat) \<le> 90
      then char_of ((of_char c :: nat) + 32) else c)"

definition ascii_lower :: "string \<Rightarrow> string" where
  "ascii_lower s = map ascii_lower_char s"

text \<open>
  The number a value stands for in a comparison with a float: ints, floats and
  bools (a subclass of int) compare; anything else raises \<^verbatim>\<open>TypeError\<close>.
\<close>

definition json_num :: "json \<Rightarrow> py_error + rat" where
  "json_num v =
     (case v of
        JInt i \<Rightarrow> Inr (of_int i)
      | JFloat r \<Rightarrow> Inr r
      | JBool b \<Rightarrow> Inr (if b then 1 else 0)
      | _ \<Rightarrow> Inl TypeError)"

text \<open>\<^verbatim>\<open>xs[:limit]\<close>: a negative stop counts from the end of the list.\<close>

definition slice_to :: "int \<Rightarrow> 'a list \<Rightarrow> 'a list" where
  "slice_to limit xs =
     (if 0 \<le> limit then take (nat limit) xs
      else take (length xs - nat (- limit)) xs)"

text \<open>\<^verbatim>\<open>f"{n}"\<close> for an int: decimal digits, with a minus sign below zero.\<close>

fun str_nat :: "nat \<Rightarrow> string" where
  "str_nat n =
     (if n < 10 then [char_of (48 + n)]
      else str_nat (n div 10) @ [char_of (48 + n mod 10)])"

definition str_int :: "int \<Rightarrow> string" where
  "str_int i = (if i < 0 then CHR ''-'' # str_nat (nat (- i)) else str_nat (nat i))"

section \<open>The client and the arguments of \<^verbatim>\<open>search_songs\<close>\<close>

record client =
  api_key :: string
  base_url :: string
  headers :: "(string \<times> string) list"

definition init :: "string \<Rightarrow> client" where
  "init key =
     \<lparr> api_key = key,
       base_url = ''https://api.getsongbpm.com'',
       headers = [(''Accept'', ''application/json''), (''X-API-KEY'', key)] \<rparr>"

record QuerySpec =
  bpm :: int
  bpm_tolerance :: int
  genre :: "string option"
  artist :: "string option"
  danceability_min :: "rat option"
  danceability_max :: "rat option"
  limit :: int

text \<open>The defaults of the signature of \<^verbatim>\<open>search_songs\<close>.\<close>

definition default_query :: QuerySpec where
  "default_query =
     \<lparr> bpm = 180, bpm_tolerance = 5, genre = None, artist = None,
       danceability_min = None, danceability_max = None, limit = 20 \<rparr>"

section \<open>Building the request\<close>

record request =
  url :: string
  req_headers :: "(string \<times> string) list"
  params :: "(string \<times> int) list"

definition bpm_min :: "QuerySpec \<Rightarrow> int" where
  "bpm_min q = bpm q - bpm_tolerance q"

definition bpm_max :: "QuerySpec \<Rightarrow> int" where
  "bpm_max q = bpm q + bpm_tolerance q"

text \<open>
  \<^verbatim>\<open>if artist:\<close> is Python's truth test of an \<^verbatim>\<open>Optional[str]\<close>: \<^verbatim>\<open>None\<close> and the
  empty string are false.
\<close>

definition endpoint :: "client \<Rightarrow> QuerySpec \<Rightarrow> string" where
  "endpoint c q =
     (case artist q of
        None \<Rightarrow>
          base_url c @ ''/tempo/'' @ str_int (bpm_min q) @ ''/'' @ str_int (bpm_max q) @ ''/''
      | Some a \<Rightarrow>
          if a \<noteq> []
          then base_url c @ ''/artist/'' @ a @ ''/tempo/''
                 @ str_int (bpm_min q) @ ''/'' @ str_int (bpm_max q) @ ''/''
          else base_url c @ ''/tempo/''
                 @ str_int (bpm_min q) @ ''/'' @ str_int (bpm_max q) @ ''/'')"

definition build_request :: "client \<Rightarrow> QuerySpec \<Rightarrow> request" where
  "build_request c q =
     \<lparr> url = endpoint c q, req_headers = headers c, params = [(''limit'', limit q)] \<rparr>"

section \<open>Filtering the records\<close>

text \<open>
  \<^verbatim>\<open>genre and song.get("genre", "").lower() != genre.lower()\<close>: the first \<^verbatim>\<open>continue\<close>
  of the loop body. An empty \<^verbatim>\<open>genre\<close> is false, and then the record is not read.
\<close>

definition genre_rejects :: "(string \<Rightarrow> string) \<Rightarrow> QuerySpec \<Rightarrow> json \<Rightarrow> py_error + bool" where
  "genre_rejects lower q song =
     (case genre q of
        None \<Rightarrow> Inr False
      | Some g \<Rightarrow>
          if g = [] then Inr False
          else (case dict_get song ''genre'' (JStr []) of
                  Inl e \<Rightarrow> Inl e
                | Inr v \<Rightarrow>
                    (case json_lower lower v of
                       Inl e \<Rightarrow> Inl e
                     | Inr s \<Rightarrow> Inr (s \<noteq> lower g))))"

text \<open>
  \<^verbatim>\<open>danceability_min and danceability < danceability_min\<close>, and the same with
  \<^verbatim>\<open>danceability_max\<close> and \<^verbatim>\<open>>\<close>: a bound that is \<^verbatim>\<open>None\<close> or \<^verbatim>\<open>0.0\<close> is false,
  and then the comparison is not evaluated.
\<close>

definition below_min :: "rat option \<Rightarrow> json \<Rightarrow> py_error + bool" where
  "below_min m d =
     (case m of
        None \<Rightarrow> Inr False
      | Some r \<Rightarrow>
          if r = 0 then Inr False
          else (case json_num d of Inl e \<Rightarrow> Inl e | Inr x \<Rightarrow> Inr (x < r)))"

definition above_max :: "rat option \<Rightarrow> json \<Rightarrow> py_error + bool" where
  "above_max m d =
     (case m of
        None \<Rightarrow> Inr False
      | Some r \<Rightarrow>
          if r = 0 then Inr False
          else (case json_num d of Inl e \<Rightarrow> Inl e | Inr x \<Rightarrow> Inr (x > r)))"

text \<open>The block under \<^verbatim>\<open>if danceability_min is not None or danceability_max is not None\<close>.\<close>

definition danceability_rejects :: "QuerySpec \<Rightarrow> json \<Rightarrow> py_error + bool" where
  "danceability_rejects q song =
     (if danceability_min q \<noteq> None \<or> danceability_max q \<noteq> None
      then (case dict_get song ''danceability'' (JInt 0) of
              Inl e \<Rightarrow> Inl e
            | Inr d \<Rightarrow>
                (case below_min (danceability_min q) d of
                   Inl e \<Rightarrow> Inl e
                 | Inr lo \<Rightarrow> if lo then Inr True else above_max (danceability_max q) d))
      else Inr False)"

text \<open>One pass of the loop body: \<open>Inr True\<close> is a \<^verbatim>\<open>continue\<close>, \<open>Inr False\<close> the append.\<close>

definition rejects :: "(string \<Rightarrow> string) \<Rightarrow> QuerySpec \<Rightarrow> json \<Rightarrow> py_error + bool" where
  "rejects lower q song =
     (case genre_rejects lower q song of
        Inl e \<Rightarrow> Inl e
      | Inr g \<Rightarrow> if g then Inr True else danceability_rejects q song)"

text \<open>The loop, with \<^verbatim>\<open>filtered_songs\<close> as the accumulator.\<close>

fun filter_loop ::
  "(string \<Rightarrow> string) \<Rightarrow> QuerySpec \<Rightarrow> json list \<Rightarrow> json list \<Rightarrow> py_error + json list" where
  "filter_loop lower q [] filtered_songs = Inr filtered_songs"
| "filter_loop lower q (song # songs) filtered_songs =
     (case rejects lower q song of
        Inl e \<Rightarrow> Inl e
      | Inr r \<Rightarrow>
          if r then filter_loop lower q songs filtered_songs
          else filter_loop lower q songs (filtered_songs @ [song]))"

text \<open>The loop followed by \<^verbatim>\<open>return filtered_songs[:limit]\<close>.\<close>

definition result_filter ::
  "(string \<Rightarrow> string) \<Rightarrow> QuerySpec \<Rightarrow> json list \<Rightarrow> py_error + json list" where
  "result_filter lower q songs =
     (case filter_loop lower q songs [] of
        Inl e \<Rightarrow> Inl e
      | Inr filtered_songs \<Rightarrow> Inr (slice_to (limit q) filtered_songs))"

section \<open>The call\<close>

text \<open>
  What the three calls \<^verbatim>\<open>requests.get\<close>, \<^verbatim>\<open>raise_for_status\<close> and \<^verbatim>\<open>response.json\<close> give
  together: a \<^verbatim>\<open>RequestException\<close> with its message, or the decoded document.
\<close>

datatype http_outcome = RequestException string | Decoded json

text \<open>
  \<^verbatim>\<open>data.get("tempo", []) if "tempo" in data else data.get("search", [])\<close>. On a
  list or a str the test \<^verbatim>\<open>in\<close> succeeds and \<^verbatim>\<open>data.get\<close> raises whatever it gave; on
  the other values the test itself raises.
\<close>

definition extract_songs :: "json \<Rightarrow> py_error + json" where
  "extract_songs data =
     (case data of
        JObj kvs \<Rightarrow>
          (case map_of kvs ''tempo'' of
             Some v \<Rightarrow> Inr v
           | None \<Rightarrow> dict_get data ''search'' (JList []))
      | JList _ \<Rightarrow> Inl AttributeError
      | JStr _ \<Rightarrow> Inl AttributeError
      | _ \<Rightarrow> Inl TypeError)"

text \<open>
  \<^verbatim>\<open>for song in songs\<close>: a list gives its elements, a dict its keys, a str its
  characters; nothing else is iterable.
\<close>

definition iterate :: "json \<Rightarrow> py_error + json list" where
  "iterate songs =
     (case songs of
        JList xs \<Rightarrow> Inr xs
      | JObj kvs \<Rightarrow> Inr (map (\<lambda>kv. JStr (fst kv)) kvs)
      | JStr s \<Rightarrow> Inr (map (\<lambda>ch. JStr [ch]) s)
      | _ \<Rightarrow> Inl TypeError)"

text \<open>
  \<^verbatim>\<open>search_songs\<close>, with the lowering and the transport as parameters. The result is
  what was printed and what was returned (\<open>Inr\<close>) or raised (\<open>Inl\<close>).
\<close>

definition search_songs ::
  "(string \<Rightarrow> string) \<Rightarrow> client \<Rightarrow> (request \<Rightarrow> http_outcome) \<Rightarrow> QuerySpec
     \<Rightarrow> string list \<times> (py_error + json list)" where
  "search_songs lower c transport q =
     (case transport (build_request c q) of
        RequestException e \<Rightarrow> ([''Error searching songs: '' @ e], Inr [])
      | Decoded data \<Rightarrow>
          ([], case extract_songs data of
                 Inl e \<Rightarrow> Inl e
               | Inr songs \<Rightarrow>
                   (case iterate songs of
                      Inl e \<Rightarrow> Inl e
                    | Inr xs \<Rightarrow> result_filter lower q xs)))"

text \<open>The record reaches \<^verbatim>\<open>filtered_songs.append(song)\<close>.\<close>

definition kept :: "(string \<Rightarrow> string) \<Rightarrow> QuerySpec \<Rightarrow> json \<Rightarrow> bool" where
  "kept lower q song = (rejects lower q song = Inr False)"

section \<open>The vocabulary of the specification\<close>

text \<open>
  A record as the data model of the specification has it: a dict whose genre, when
  present, is a string and whose danceability, when present, is a number.
\<close>

definition is_SongRecord :: "json \<Rightarrow> bool" where
  "is_SongRecord song =
     (case song of
        JObj kvs \<Rightarrow>
          (case map_of kvs ''genre'' of
             None \<Rightarrow> True
           | Some v \<Rightarrow> (case v of JStr _ \<Rightarrow> True | _ \<Rightarrow> False))
          \<and> (case map_of kvs ''danceability'' of
                None \<Rightarrow> True
              | Some v \<Rightarrow> (case v of JInt _ \<Rightarrow> True | JFloat _ \<Rightarrow> True | _ \<Rightarrow> False))
      | _ \<Rightarrow> False)"

text \<open>
  Equality of two ASCII strings up to the case of their letters, written without
  a lowering: the same length, and position by position the same character or an
  upper-case letter and its lower-case form (32 code points above).
\<close>

definition same_letter :: "char \<Rightarrow> char \<Rightarrow> bool" where
  "same_letter c d =
     (c = d
      \<or> (65 \<le> (of_char c :: nat) \<and> (of_char c :: nat) \<le> 90 \<and> (of_char d :: nat) = of_char c + 32)
      \<or> (65 \<le> (of_char d :: nat) \<and> (of_char d :: nat) \<le> 90 \<and> (of_char c :: nat) = of_char d + 32))"

definition equal_ignoring_case :: "string \<Rightarrow> string \<Rightarrow> bool" where
  "equal_ignoring_case s t = list_all2 same_letter s t"

text \<open>
  In the words of the specification: "record's genre, compared case-insensitively,
  equals the filter exactly (missing genre: excluded)". Two strings compare equal
  case-insensitively when their lowered forms are the same string.
\<close>

definition spec_genre_equals :: "(string \<Rightarrow> string) \<Rightarrow> string \<Rightarrow> json \<Rightarrow> bool" where
  "spec_genre_equals lower f song =
     (case song of
        JObj kvs \<Rightarrow>
          (case map_of kvs ''genre'' of
             None \<Rightarrow> False
           | Some v \<Rightarrow> (case v of JStr g \<Rightarrow> lower g = lower f | _ \<Rightarrow> False))
      | _ \<Rightarrow> False)"

text \<open>
  In the words of the specification: the record's danceability, "missing: treated
  as 0".
\<close>

definition spec_danceability :: "json \<Rightarrow> rat" where
  "spec_danceability song =
     (case song of
        JObj kvs \<Rightarrow>
          (case map_of kvs ''danceability'' of
             None \<Rightarrow> 0
           | Some v \<Rightarrow> (case v of JInt i \<Rightarrow> of_int i | JFloat r \<Rightarrow> r | _ \<Rightarrow> 0))
      | _ \<Rightarrow> 0)"

section \<open>Lower case and equality up to case on ASCII text\<close>

text \<open>
  On ASCII text the comparison of the lowered forms is equality up to the case of the
  letters.
\<close>

lemma of_char_ascii_lower_char:
  "(of_char (ascii_lower_char c) :: nat) =
     (if 65 \<le> (of_char c :: nat) \<and> (of_char c :: nat) \<le> 90 then of_char c + 32 else of_char c)"
  by (simp add: ascii_lower_char_def)

lemma char_eq_iff_nat: "c = d \<longleftrightarrow> (of_char c :: nat) = of_char d"
  by (metis char_of_char)

lemma ascii_lower_char_same_letter: "ascii_lower_char c = ascii_lower_char d \<longleftrightarrow> same_letter c d"
proof -
  have "ascii_lower_char c = ascii_lower_char d
          \<longleftrightarrow> (of_char (ascii_lower_char c) :: nat) = of_char (ascii_lower_char d)"
    by (rule char_eq_iff_nat)
  also have "\<dots> \<longleftrightarrow> same_letter c d"
    unfolding of_char_ascii_lower_char same_letter_def char_eq_iff_nat [of c d]
    by auto
  finally show ?thesis .
qed

lemma ascii_lower_equal_ignoring_case:
  "ascii_lower s = ascii_lower t \<longleftrightarrow> equal_ignoring_case s t"
  unfolding ascii_lower_def equal_ignoring_case_def
proof (induction s arbitrary: t)
  case Nil
  then show ?case by simp
next
  case (Cons c s)
  then show ?case by (cases t) (simp_all add: ascii_lower_char_same_letter)
qed

lemma ascii_lower_Nil: "ascii_lower [] = []"
  by (simp add: ascii_lower_def)

lemma ascii_lower_eq_Nil: "ascii_lower s = [] \<longleftrightarrow> s = []"
  by (simp add: ascii_lower_def)

lemma spec_genre_equals_ascii:
  "spec_genre_equals ascii_lower f (JObj kvs)
     \<longleftrightarrow> (\<exists>g. map_of kvs ''genre'' = Some (JStr g) \<and> equal_ignoring_case g f)"
  by (auto simp: spec_genre_equals_def ascii_lower_equal_ignoring_case
        split: option.splits json.splits)


section \<open>The loop body on records of the data model\<close>


lemma genre_rejects_no_filter:
  assumes "genre q = None \<or> genre q = Some []"
  shows "genre_rejects lower q song = Inr False"
  using assms by (auto simp: genre_rejects_def)

lemma danceability_rejects_SongRecord:
  assumes "is_SongRecord song"
  shows "danceability_rejects q song =
           Inr ((case danceability_min q of
                   None \<Rightarrow> False | Some b \<Rightarrow> b \<noteq> 0 \<and> spec_danceability song < b)
                \<or> (case danceability_max q of
                      None \<Rightarrow> False | Some b \<Rightarrow> b \<noteq> 0 \<and> b < spec_danceability song))"
  using assms
  by (auto simp: danceability_rejects_def is_SongRecord_def spec_danceability_def dict_get_def
        below_min_def above_max_def json_num_def
        split: json.splits option.splits)

lemma genre_rejects_returns:
  assumes "is_SongRecord song"
  shows "\<exists>b. genre_rejects lower q song = Inr b"
  using assms
  by (auto simp: genre_rejects_def is_SongRecord_def dict_get_def json_lower_def
        split: json.splits option.splits)

lemma rejects_returns:
  assumes "is_SongRecord song"
  shows "\<exists>b. rejects lower q song = Inr b"
proof -
  obtain g where "genre_rejects lower q song = Inr g"
    using genre_rejects_returns [OF assms] by blast
  then show ?thesis
    by (cases g) (auto simp: rejects_def danceability_rejects_SongRecord [OF assms])
qed

section \<open>The loop and the slice\<close>

lemma filter_loop_returns:
  assumes "\<forall>song\<in>set songs. \<exists>b. rejects lower q song = Inr b"
  shows "filter_loop lower q songs acc = Inr (acc @ filter (kept lower q) songs)"
  using assms
proof (induction songs arbitrary: acc)
  case Nil
  then show ?case by simp
next
  case (Cons song songs)
  then obtain b where b: "rejects lower q song = Inr b" by auto
  from Cons have "filter_loop lower q songs acc' = Inr (acc' @ filter (kept lower q) songs)" for acc'
    by simp
  moreover from b have "kept lower q song = (\<not> b)"
    by (simp add: kept_def)
  ultimately show ?case using b by simp
qed

lemma filter_loop_Inr:
  assumes "filter_loop lower q songs acc = Inr ys"
  shows "ys = acc @ filter (kept lower q) songs \<and> (\<forall>song\<in>set songs. \<exists>b. rejects lower q song = Inr b)"
  using assms
proof (induction songs arbitrary: acc)
  case Nil
  then show ?case by simp
next
  case (Cons song songs)
  show ?case
  proof (cases "rejects lower q song")
    case (Inl e)
    with Cons.prems show ?thesis by simp
  next
    case (Inr b)
    then have k: "kept lower q song = (\<not> b)"
      by (simp add: kept_def)
    from Inr Cons.prems have "filter_loop lower q songs (if b then acc else acc @ [song]) = Inr ys"
      by (simp split: if_splits)
    from Cons.IH [OF this] Inr k show ?thesis
      by (auto split: if_splits)
  qed
qed

lemma result_filter_returns:
  assumes "\<forall>song\<in>set songs. is_SongRecord song"
  shows "result_filter lower q songs = Inr (slice_to (limit q) (filter (kept lower q) songs))"
proof -
  from assms have "\<forall>song\<in>set songs. \<exists>b. rejects lower q song = Inr b"
    by (simp add: rejects_returns)
  then show ?thesis
    by (simp add: result_filter_def filter_loop_returns)
qed

lemma result_filter_Inr:
  assumes "result_filter lower q songs = Inr ys"
  shows "ys = slice_to (limit q) (filter (kept lower q) songs)"
    and "\<forall>song\<in>set songs. \<exists>b. rejects lower q song = Inr b"
proof -
  from assms obtain fs where fs: "filter_loop lower q songs [] = Inr fs" and ys: "ys = slice_to (limit q) fs"
    by (auto simp: result_filter_def split: sum.splits)
  from filter_loop_Inr [OF fs] ys
  show "ys = slice_to (limit q) (filter (kept lower q) songs)"
    and "\<forall>song\<in>set songs. \<exists>b. rejects lower q song = Inr b"
    by simp_all
qed

lemma set_slice_to: "set (slice_to n xs) \<subseteq> set xs"
  by (auto simp: slice_to_def dest: in_set_takeD)

lemma kept_iff:
  "kept lower q song \<longleftrightarrow> genre_rejects lower q song = Inr False \<and> danceability_rejects q song = Inr False"
  by (auto simp: kept_def rejects_def split: sum.splits if_splits)




lemma kept_danceability_min:
  assumes "kept lower q song" and "is_SongRecord song" and "danceability_min q = Some b"
  shows "b = 0 \<or> b \<le> spec_danceability song"
proof -
  from assms(1) have "danceability_rejects q song = Inr False"
    by (simp add: kept_iff)
  with danceability_rejects_SongRecord [OF assms(2), of q] assms(3) show ?thesis
    by auto
qed

lemma kept_danceability_max:
  assumes "kept lower q song" and "is_SongRecord song" and "danceability_max q = Some b"
  shows "b = 0 \<or> spec_danceability song \<le> b"
proof -
  from assms(1) have "danceability_rejects q song = Inr False"
    by (simp add: kept_iff)
  with danceability_rejects_SongRecord [OF assms(2), of q] assms(3) show ?thesis
    by auto
qed

lemma slice_to_take: "0 \<le> n \<Longrightarrow> slice_to n xs = take (nat n) xs"
  by (simp add: slice_to_def)

lemma filter_take_filter: "filter P (take n (filter P xs)) = take n (filter P xs)"
  by (rule filter_True) (auto dest: in_set_takeD)

text \<open>The artist argument is read by the endpoint only.\<close>

lemma rejects_artist: "rejects lower (q\<lparr>artist := x\<rparr>) song = rejects lower q song"
proof -
  have "genre_rejects lower (q\<lparr>artist := x\<rparr>) song = genre_rejects lower q song"
    by (simp add: genre_rejects_def)
  moreover have "danceability_rejects (q\<lparr>artist := x\<rparr>) song = danceability_rejects q song"
    by (simp add: danceability_rejects_def split: sum.splits)
  ultimately show ?thesis
    by (simp add: rejects_def split: sum.splits)
qed

lemma filter_loop_artist:
  "filter_loop lower (q\<lparr>artist := x\<rparr>) songs acc = filter_loop lower q songs acc"
  by (induction songs arbitrary: acc) (simp_all add: rejects_artist split: sum.splits)

lemma result_filter_artist: "result_filter lower (q\<lparr>artist := x\<rparr>) songs = result_filter lower q songs"
  by (simp add: result_filter_def filter_loop_artist split: sum.splits)

section \<open>The request\<close>

text \<open>
  C2. For every integer \<^verbatim>\<open>bpm\<close> \<open>b\<close> and every non-negative integer tolerance \<open>t\<close>,
  the BPM range that \<^verbatim>\<open>search_songs\<close> computes and passes upstream is exactly
  \<open>[b - t, b + t]\<close>: \<^verbatim>\<open>bpm_min\<close> is \<open>b - t\<close>, \<^verbatim>\<open>bpm_max\<close> is \<open>b + t\<close>, the interval
  between them contains \<open>b\<close>, and the URL of the request ends with the path segments
  \<^verbatim>\<open>/tempo/{b - t}/{b + t}/\<close>, on either endpoint.
\<close>

theorem bpm_range_exact:
  assumes "bpm q = b" and "bpm_tolerance q = t" and "0 \<le> t"
  shows "bpm_min q = b - t \<and> bpm_max q = b + t
         \<and> {bpm_min q .. bpm_max q} = {b - t .. b + t}
         \<and> b \<in> {bpm_min q .. bpm_max q}
         \<and> (\<exists>root. url (build_request c q)
               = root @ ''/tempo/'' @ str_int (b - t) @ ''/'' @ str_int (b + t) @ ''/'')"
proof -
  have r: "bpm_min q = b - t" "bpm_max q = b + t"
    using assms by (simp_all add: bpm_min_def bpm_max_def)
  have "\<exists>root. endpoint c q
          = root @ ''/tempo/'' @ str_int (bpm_min q) @ ''/'' @ str_int (bpm_max q) @ ''/''"
  proof (cases "artist q")
    case None
    then show ?thesis by (simp add: endpoint_def)
  next
    case (Some a)
    show ?thesis
    proof (cases "a = []")
      case True
      with Some show ?thesis by (simp add: endpoint_def)
    next
      case False
      with Some have "endpoint c q
          = (base_url c @ ''/artist/'' @ a) @ ''/tempo/'' @ str_int (bpm_min q) @ ''/''
              @ str_int (bpm_max q) @ ''/''"
        by (simp add: endpoint_def)
      then show ?thesis by blast
    qed
  qed
  with r assms(3) show ?thesis
    by (simp add: build_request_def)
qed

text \<open>The defaults of the signature: 180 and 5 give the range 175 to 185.\<close>

theorem bpm_range_exact_witness:
  "(0::int) \<le> 5
   \<and> bpm_min default_query = 175 \<and> bpm_max default_query = 185
   \<and> url (build_request (init ''KEY'') default_query)
       = ''https://api.getsongbpm.com/tempo/175/185/''"
proof -
  have h: "bpm default_query = 180" "bpm_tolerance default_query = 5" "(0::int) \<le> 5"
    by (simp_all add: default_query_def)
  have u: "url (build_request (init ''KEY'') default_query)
       = ''https://api.getsongbpm.com/tempo/175/185/''"
    by code_simp
  from bpm_range_exact [OF h, of "init ''KEY''"] u show ?thesis by simp
qed

text \<open>
  C1, as the code has it. For every call with a non-empty artist, \<^verbatim>\<open>search_songs\<close>
  targets the artist-scoped tempo endpoint, path
  \<^verbatim>\<open>/artist/{artist}/tempo/{bpm_min}/{bpm_max}/\<close>; for every call with no artist
  (\<^verbatim>\<open>None\<close>) it targets the general tempo-range endpoint, path
  \<^verbatim>\<open>/tempo/{bpm_min}/{bpm_max}/\<close>.
\<close>

theorem endpoint_by_artist:
  "(artist q = Some a \<and> a \<noteq> [] \<longrightarrow>
      endpoint c q = base_url c @ ''/artist/'' @ a @ ''/tempo/''
                       @ str_int (bpm q - bpm_tolerance q) @ ''/''
                       @ str_int (bpm q + bpm_tolerance q) @ ''/'')
   \<and> (artist q = None \<longrightarrow>
      endpoint c q = base_url c @ ''/tempo/''
                       @ str_int (bpm q - bpm_tolerance q) @ ''/''
                       @ str_int (bpm q + bpm_tolerance q) @ ''/'')"
  by (simp add: endpoint_def bpm_min_def bpm_max_def)

theorem endpoint_by_artist_witness:
  "endpoint (init ''KEY'') (default_query\<lparr>artist := Some ''Daft Punk'', bpm_tolerance := 10\<rparr>)
     = ''https://api.getsongbpm.com/artist/Daft Punk/tempo/170/190/''
   \<and> endpoint (init ''KEY'') default_query = ''https://api.getsongbpm.com/tempo/175/185/''"
proof -
  let ?q = "default_query\<lparr>artist := Some ''Daft Punk'', bpm_tolerance := 10\<rparr>"
  have a: "artist ?q = Some ''Daft Punk'' \<and> ''Daft Punk'' \<noteq> []"
    by (simp add: default_query_def)
  have n: "artist default_query = None"
    by (simp add: default_query_def)
  have s: "str_int 170 = ''170''" "str_int 190 = ''190''" "str_int 175 = ''175''" "str_int 185 = ''185''"
    by code_simp+
  from endpoint_by_artist [of ?q "''Daft Punk''" "init ''KEY''"] a
  have "endpoint (init ''KEY'') ?q
     = ''https://api.getsongbpm.com/artist/Daft Punk/tempo/170/190/''"
    by (simp add: default_query_def init_def s)
  moreover from endpoint_by_artist [of default_query "[]" "init ''KEY''"] n
  have "endpoint (init ''KEY'') default_query = ''https://api.getsongbpm.com/tempo/175/185/''"
    by (simp add: default_query_def init_def s)
  ultimately show ?thesis by simp
qed

text \<open>
  C1 as stated, for every artist that is set, fails at the artist \<^verbatim>\<open>""\<close>: the truth
  test \<^verbatim>\<open>if artist:\<close> is false there, and the general endpoint is targeted.
\<close>

theorem endpoint_by_artist_counterexample:
  "artist (default_query\<lparr>artist := Some []\<rparr>) = Some []
   \<and> endpoint (init ''KEY'') (default_query\<lparr>artist := Some []\<rparr>)
       = ''https://api.getsongbpm.com/tempo/175/185/''
   \<and> endpoint (init ''KEY'') (default_query\<lparr>artist := Some []\<rparr>)
       \<noteq> ''https://api.getsongbpm.com/artist//tempo/175/185/''"
  by code_simp


text \<open>
  C10. For the artist given as the empty string, \<^verbatim>\<open>search_songs\<close> selects the general
  tempo-range endpoint, the URL \<^verbatim>\<open>{base_url}/tempo/{bpm_min}/{bpm_max}/\<close>, and builds
  the same request and gives the same result as with no artist supplied; and the
  general endpoint is selected exactly when the artist is \<^verbatim>\<open>None\<close> or the empty
  string.
\<close>

theorem empty_artist_is_absent:
  "endpoint c (q\<lparr>artist := Some []\<rparr>)
     = base_url c @ ''/tempo/'' @ str_int (bpm q - bpm_tolerance q) @ ''/''
         @ str_int (bpm q + bpm_tolerance q) @ ''/''
   \<and> endpoint c (q\<lparr>artist := None\<rparr>)
     = base_url c @ ''/tempo/'' @ str_int (bpm q - bpm_tolerance q) @ ''/''
         @ str_int (bpm q + bpm_tolerance q) @ ''/''
   \<and> build_request c (q\<lparr>artist := Some []\<rparr>) = build_request c (q\<lparr>artist := None\<rparr>)
   \<and> search_songs lower c transport (q\<lparr>artist := Some []\<rparr>)
       = search_songs lower c transport (q\<lparr>artist := None\<rparr>)
   \<and> (endpoint c q
         = base_url c @ ''/tempo/'' @ str_int (bpm q - bpm_tolerance q) @ ''/''
             @ str_int (bpm q + bpm_tolerance q) @ ''/''
        \<longleftrightarrow> artist q = None \<or> artist q = Some [])"
proof -
  let ?general = "base_url c @ ''/tempo/'' @ str_int (bpm q - bpm_tolerance q) @ ''/''
                    @ str_int (bpm q + bpm_tolerance q) @ ''/''"
  have e: "endpoint c (q\<lparr>artist := Some []\<rparr>) = ?general"
    by (simp add: endpoint_def bpm_min_def bpm_max_def)
  have n: "endpoint c (q\<lparr>artist := None\<rparr>) = ?general"
    by (simp add: endpoint_def bpm_min_def bpm_max_def)
  from e n have b: "build_request c (q\<lparr>artist := Some []\<rparr>) = build_request c (q\<lparr>artist := None\<rparr>)"
    by (simp add: build_request_def)
  have s: "search_songs lower c transport (q\<lparr>artist := Some []\<rparr>)
             = search_songs lower c transport (q\<lparr>artist := None\<rparr>)"
    by (simp add: search_songs_def b result_filter_artist split: http_outcome.splits sum.splits)
  have i: "endpoint c q = ?general \<longleftrightarrow> artist q = None \<or> artist q = Some []"
  proof (cases "artist q")
    case None
    then show ?thesis by (simp add: endpoint_def bpm_min_def bpm_max_def)
  next
    case (Some a)
    then show ?thesis
      by (cases "a = []") (simp_all add: endpoint_def bpm_min_def bpm_max_def)
  qed
  from e n b s i show ?thesis by (intro conjI)
qed

text \<open>
  With the defaults of the signature, the artist \<^verbatim>\<open>""\<close> gives the URL of the general
  endpoint for the range 175 to 185.
\<close>

theorem empty_artist_is_absent_witness:
  "artist (default_query\<lparr>artist := Some []\<rparr>) = Some []
   \<and> endpoint (init ''KEY'') (default_query\<lparr>artist := Some []\<rparr>)
       = ''https://api.getsongbpm.com/tempo/175/185/''
   \<and> endpoint (init ''KEY'') (default_query\<lparr>artist := None\<rparr>)
       = ''https://api.getsongbpm.com/tempo/175/185/''"
proof -
  let ?q = "default_query\<lparr>artist := Some []\<rparr>"
  let ?c = "init ''KEY''"
  have a: "artist ?q = Some []"
    by simp
  have g: "base_url ?c @ ''/tempo/'' @ str_int (bpm ?q - bpm_tolerance ?q) @ ''/''
             @ str_int (bpm ?q + bpm_tolerance ?q) @ ''/''
           = ''https://api.getsongbpm.com/tempo/175/185/''"
    by code_simp
  have g': "base_url ?c @ ''/tempo/'' @ str_int (bpm default_query - bpm_tolerance default_query)
              @ ''/'' @ str_int (bpm default_query + bpm_tolerance default_query) @ ''/''
           = ''https://api.getsongbpm.com/tempo/175/185/''"
    by code_simp
  from empty_artist_is_absent
         [where c = ?c and q = ?q and lower = ascii_lower and transport = "\<lambda>r. Decoded JNull"]
  have i: "endpoint ?c ?q
             = base_url ?c @ ''/tempo/'' @ str_int (bpm ?q - bpm_tolerance ?q) @ ''/''
                 @ str_int (bpm ?q + bpm_tolerance ?q) @ ''/''
           \<longleftrightarrow> artist ?q = None \<or> artist ?q = Some []"
    by (elim conjE)
  from a have "artist ?q = None \<or> artist ?q = Some []"
    by (rule disjI2)
  with i have "endpoint ?c ?q
                 = base_url ?c @ ''/tempo/'' @ str_int (bpm ?q - bpm_tolerance ?q) @ ''/''
                     @ str_int (bpm ?q + bpm_tolerance ?q) @ ''/''"
    by (rule iffD2)
  from this g have u: "endpoint ?c ?q = ''https://api.getsongbpm.com/tempo/175/185/''"
    by (rule trans)
  from empty_artist_is_absent
         [where c = ?c and q = default_query and lower = ascii_lower
            and transport = "\<lambda>r. Decoded JNull"]
  have "endpoint ?c (default_query\<lparr>artist := None\<rparr>)
          = base_url ?c @ ''/tempo/'' @ str_int (bpm default_query - bpm_tolerance default_query)
              @ ''/'' @ str_int (bpm default_query + bpm_tolerance default_query) @ ''/''"
    by (elim conjE)
  from this g' have "endpoint ?c (default_query\<lparr>artist := None\<rparr>)
                  = ''https://api.getsongbpm.com/tempo/175/185/''"
    by (rule trans)
  with a u show ?thesis by (intro conjI)
qed

section \<open>Transport failures\<close>

text \<open>
  C8. For every call, if the upstream transport call fails with a
  \<^verbatim>\<open>RequestException\<close>, \<^verbatim>\<open>search_songs\<close> returns the empty list and raises nothing;
  the failure is reported by one printed message only.
\<close>

theorem search_songs_transport_failure:
  assumes "transport (build_request c q) = RequestException e"
  shows "search_songs lower c transport q = ([''Error searching songs: '' @ e], Inr [])"
  using assms by (simp add: search_songs_def)

theorem search_songs_transport_failure_witness:
  "search_songs ascii_lower (init ''KEY'') (\<lambda>r. RequestException ''timed out'') default_query
     = ([''Error searching songs: timed out''], Inr [])"
proof -
  have h: "(\<lambda>r. RequestException ''timed out'') (build_request (init ''KEY'') default_query)
             = RequestException ''timed out''"
    by simp
  from search_songs_transport_failure
         [of "\<lambda>r. RequestException ''timed out''", OF h, where lower = ascii_lower]
  show ?thesis by simp
qed

section \<open>The genre filter\<close>




section \<open>The danceability bounds\<close>

text \<open>
  C4. For every call with a danceability lower bound set and every sequence of
  records of the data model (danceability, when present, a number that is not
  negative), the Result Filter returns, and it retains a record only if its
  danceability, a missing value treated as 0, is greater than or equal to the bound.
\<close>

theorem danceability_lower_bound:
  assumes "danceability_min q = Some b"
    and "\<forall>song\<in>set songs. is_SongRecord song \<and> 0 \<le> spec_danceability song"
  shows "\<exists>ys. result_filter lower q songs = Inr ys \<and> (\<forall>song\<in>set ys. b \<le> spec_danceability song)"
proof (intro exI conjI ballI)
  let ?ys = "slice_to (limit q) (filter (kept lower q) songs)"
  from assms(2) show "result_filter lower q songs = Inr ?ys"
    by (simp add: result_filter_returns)
  fix song
  assume "song \<in> set ?ys"
  with set_slice_to [of "limit q" "filter (kept lower q) songs"]
  have s: "song \<in> set songs" and k: "kept lower q song"
    by auto
  from s assms(2) have r: "is_SongRecord song" and z: "0 \<le> spec_danceability song"
    by auto
  from kept_danceability_min [OF k r assms(1)] z show "b \<le> spec_danceability song"
    by auto
qed

text \<open>
  The example of the specification: with \<^verbatim>\<open>danceability_min = 0.7\<close>, the input
  \<^verbatim>\<open>[{danceability: 0.8}, {danceability: 0.5}, {}]\<close> yields only the first record.
\<close>

theorem danceability_lower_bound_witness:
  "result_filter ascii_lower (default_query\<lparr>danceability_min := Some (7 / 10)\<rparr>)
     [JObj [(''danceability'', JFloat (8 / 10))], JObj [(''danceability'', JFloat (5 / 10))], JObj []]
   = Inr [JObj [(''danceability'', JFloat (8 / 10))]]
   \<and> 7 / 10 \<le> spec_danceability (JObj [(''danceability'', JFloat (8 / 10))])"
proof -
  let ?q = "default_query\<lparr>danceability_min := Some (7 / 10)\<rparr>"
  let ?songs = "[JObj [(''danceability'', JFloat (8 / 10))],
                 JObj [(''danceability'', JFloat (5 / 10))], JObj []]"
  have h1: "danceability_min ?q = Some (7 / 10)"
    by simp
  have h2: "\<forall>song\<in>set ?songs. is_SongRecord song \<and> 0 \<le> spec_danceability song"
    by (simp add: is_SongRecord_def spec_danceability_def)
  have e: "result_filter ascii_lower ?q ?songs = Inr [JObj [(''danceability'', JFloat (8 / 10))]]"
    by code_simp
  from danceability_lower_bound [OF h1 h2, where lower = ascii_lower] obtain ys
    where r: "result_filter ascii_lower ?q ?songs = Inr ys"
      and y: "\<forall>song\<in>set ys. 7 / 10 \<le> spec_danceability song"
    by (elim exE conjE)
  from r e have "ys = [JObj [(''danceability'', JFloat (8 / 10))]]"
    by simp
  with y e show ?thesis by simp
qed

text \<open>
  C5 on the code, at the upper bound \<^verbatim>\<open>0.0\<close>: the guard
  \<^verbatim>\<open>danceability_max is not None\<close> is entered, but the truth test
  \<^verbatim>\<open>danceability_max and ...\<close> is false and the comparison is skipped, so a record of
  danceability 0.5 is retained above the bound 0. At the bound 0.25 the same record
  is excluded.
\<close>

theorem danceability_upper_bound_zero_skipped:
  "result_filter lower (default_query\<lparr>danceability_max := Some 0\<rparr>)
     [JObj [(''danceability'', JFloat (1 / 2))]]
   = Inr [JObj [(''danceability'', JFloat (1 / 2))]]
   \<and> \<not> spec_danceability (JObj [(''danceability'', JFloat (1 / 2))]) \<le> 0
   \<and> result_filter lower (default_query\<lparr>danceability_max := Some (1 / 4)\<rparr>)
        [JObj [(''danceability'', JFloat (1 / 2))]]
      = Inr []"
  by (simp add: result_filter_def rejects_def genre_rejects_def danceability_rejects_def
        dict_get_def below_min_def above_max_def json_num_def slice_to_def spec_danceability_def
        default_query_def)

text \<open>Every upper bound other than \<^verbatim>\<open>0.0\<close> is enforced.\<close>

lemma danceability_upper_bound_nonzero:
  assumes "danceability_max q = Some b" and "b \<noteq> 0"
    and "\<forall>song\<in>set songs. is_SongRecord song"
  shows "\<exists>ys. result_filter lower q songs = Inr ys \<and> (\<forall>song\<in>set ys. spec_danceability song \<le> b)"
proof (intro exI conjI ballI)
  let ?ys = "slice_to (limit q) (filter (kept lower q) songs)"
  from assms(3) show "result_filter lower q songs = Inr ?ys"
    by (simp add: result_filter_returns)
  fix song
  assume "song \<in> set ?ys"
  with set_slice_to [of "limit q" "filter (kept lower q) songs"]
  have s: "song \<in> set songs" and k: "kept lower q song"
    by auto
  from s assms(3) have r: "is_SongRecord song"
    by auto
  from kept_danceability_max [OF k r assms(1)] assms(2) show "spec_danceability song \<le> b"
    by auto
qed

text \<open>
  C9. For every call with a danceability lower bound set, a record whose danceability
  is exactly 0 and a record with no danceability field, of the same genre field, get
  the same decision: the lower-bound comparison, the danceability block and the whole
  loop body give the same on both, an exception included.
\<close>

theorem zero_danceability_as_missing:
  assumes "danceability_min q = Some b"
    and "map_of kvs ''danceability'' = None"
    and "map_of kvs' ''danceability'' = Some z" and "json_num z = Inr 0"
    and "map_of kvs' ''genre'' = map_of kvs ''genre''"
  shows "below_min (danceability_min q) z = below_min (danceability_min q) (JInt 0)
         \<and> danceability_rejects q (JObj kvs') = danceability_rejects q (JObj kvs)
         \<and> rejects lower q (JObj kvs') = rejects lower q (JObj kvs)
         \<and> kept lower q (JObj kvs') = kept lower q (JObj kvs)"
proof -
  have n: "json_num (JInt 0) = Inr 0"
    by (simp add: json_num_def)
  have lo: "below_min m z = below_min m (JInt 0)" for m
    by (simp add: below_min_def assms(4) n split: option.splits)
  have hi: "above_max m z = above_max m (JInt 0)" for m
    by (simp add: above_max_def assms(4) n split: option.splits)
  have d: "danceability_rejects q (JObj kvs') = danceability_rejects q (JObj kvs)"
    by (simp add: danceability_rejects_def dict_get_def assms(2,3) lo hi split: sum.splits)
  have g: "genre_rejects lower q (JObj kvs') = genre_rejects lower q (JObj kvs)"
    by (simp add: genre_rejects_def dict_get_def assms(5) split: option.splits)
  have r: "rejects lower q (JObj kvs') = rejects lower q (JObj kvs)"
    by (simp add: rejects_def d g split: sum.splits)
  from lo d r show ?thesis
    by (simp add: kept_def)
qed

text \<open>With the lower bound 0.7, both are excluded.\<close>

theorem zero_danceability_as_missing_witness:
  "rejects ascii_lower (default_query\<lparr>danceability_min := Some (7 / 10)\<rparr>) (JObj [(''danceability'', JFloat 0)])
     = rejects ascii_lower (default_query\<lparr>danceability_min := Some (7 / 10)\<rparr>) (JObj [])
   \<and> rejects ascii_lower (default_query\<lparr>danceability_min := Some (7 / 10)\<rparr>) (JObj []) = Inr True"
proof -
  let ?q = "default_query\<lparr>danceability_min := Some (7 / 10)\<rparr>"
  have h: "danceability_min ?q = Some (7 / 10)"
    "map_of [] ''danceability'' = (None :: json option)"
    "map_of [(''danceability'', JFloat 0)] ''danceability'' = Some (JFloat 0)"
    "json_num (JFloat 0) = Inr 0"
    "map_of [(''danceability'', JFloat 0)] ''genre'' = map_of ([] :: (string \<times> json) list) ''genre''"
    by (simp_all add: json_num_def)
  have e: "rejects ascii_lower ?q (JObj []) = Inr True"
    by code_simp
  from zero_danceability_as_missing [OF h, where lower = ascii_lower]
  have "rejects ascii_lower ?q (JObj [(''danceability'', JFloat 0)]) = rejects ascii_lower ?q (JObj [])"
    by (elim conjE)
  with e show ?thesis by (intro conjI)
qed

section \<open>Order, limit and idempotence\<close>

text \<open>
  C6. For every call with a positive result limit and every input sequence, the
  Result Filter returns on records of the data model, and whatever it returns has at
  most \<^verbatim>\<open>limit\<close> records, is a subsequence of the input (the surviving records in
  their original relative order), and is the first \<^verbatim>\<open>limit\<close> of the surviving records
  in that order.
\<close>

theorem result_filter_limit_order:
  assumes "0 < limit q"
  shows "((\<forall>song\<in>set songs. is_SongRecord song) \<longrightarrow> (\<exists>ys. result_filter lower q songs = Inr ys))
         \<and> (\<forall>ys. result_filter lower q songs = Inr ys \<longrightarrow>
               int (length ys) \<le> limit q
               \<and> subseq ys songs
               \<and> ys = take (nat (limit q)) (filter (kept lower q) songs))"
proof (intro conjI allI impI)
  show "\<exists>ys. result_filter lower q songs = Inr ys" if "\<forall>song\<in>set songs. is_SongRecord song"
    using that by (simp add: result_filter_returns)
next
  fix ys
  assume r: "result_filter lower q songs = Inr ys"
  from result_filter_Inr(1) [OF r] assms
  show t: "ys = take (nat (limit q)) (filter (kept lower q) songs)"
    by (simp add: slice_to_take)
  from t assms show "int (length ys) \<le> limit q"
    by simp
  have "subseq (take (nat (limit q)) (filter (kept lower q) songs)) (filter (kept lower q) songs)"
    by (rule prefix_imp_subseq) (rule take_is_prefix)
  also have "subseq (filter (kept lower q) songs) songs"
    by (rule subseq_filter_left)
  finally show "subseq ys songs"
    by (simp only: t [symmetric])
qed

text \<open>With the limit 1, two records that both survive give the first.\<close>

theorem result_filter_limit_order_witness:
  "0 < limit (default_query\<lparr>limit := 1\<rparr>)
   \<and> is_SongRecord (JObj [(''tempo'', JInt 180)]) \<and> is_SongRecord (JObj [])
   \<and> (\<exists>ys. result_filter ascii_lower (default_query\<lparr>limit := 1\<rparr>) [JObj [(''tempo'', JInt 180)], JObj []]
              = Inr ys)
   \<and> result_filter ascii_lower (default_query\<lparr>limit := 1\<rparr>) [JObj [(''tempo'', JInt 180)], JObj []]
       = Inr [JObj [(''tempo'', JInt 180)]]
   \<and> int (length [JObj [(''tempo'', JInt 180)]]) \<le> limit (default_query\<lparr>limit := 1\<rparr>)
   \<and> subseq [JObj [(''tempo'', JInt 180)]] [JObj [(''tempo'', JInt 180)], JObj []]"
proof -
  let ?q = "default_query\<lparr>limit := 1\<rparr>"
  let ?songs = "[JObj [(''tempo'', JInt 180)], JObj []]"
  have h: "0 < limit ?q"
    by simp
  have t: "is_SongRecord (JObj [(''tempo'', JInt 180)])" "is_SongRecord (JObj [])"
    by (simp_all add: is_SongRecord_def)
  then have t': "\<forall>song\<in>set ?songs. is_SongRecord song"
    by simp
  have e: "result_filter ascii_lower ?q ?songs = Inr [JObj [(''tempo'', JInt 180)]]"
    by code_simp
  note inst = result_filter_limit_order [OF h, where lower = ascii_lower and songs = ?songs]
  from inst t' have r: "\<exists>ys. result_filter ascii_lower ?q ?songs = Inr ys"
    by (elim conjE impE)
  from inst
  have "result_filter ascii_lower ?q ?songs = Inr [JObj [(''tempo'', JInt 180)]] \<longrightarrow>
          int (length [JObj [(''tempo'', JInt 180)]]) \<le> limit ?q
          \<and> subseq [JObj [(''tempo'', JInt 180)]] ?songs
          \<and> [JObj [(''tempo'', JInt 180)]] = take (nat (limit ?q)) (filter (kept ascii_lower ?q) ?songs)"
    by (elim conjE allE)
  with e have "int (length [JObj [(''tempo'', JInt 180)]]) \<le> limit ?q
      \<and> subseq [JObj [(''tempo'', JInt 180)]] ?songs"
    by (elim impE conjE) (assumption, intro conjI)
  with h t r e show ?thesis by (elim conjE) (intro conjI)
qed

text \<open>
  C7. The Result Filter is idempotent: for every call with a limit that is not
  negative (every QuerySpec has a positive one) and every input sequence, the filter
  returns on records of the data model, and applying it with the same arguments to
  what it returned gives that list again.
\<close>

theorem result_filter_idempotent:
  assumes "0 \<le> limit q"
  shows "((\<forall>song\<in>set songs. is_SongRecord song) \<longrightarrow> (\<exists>ys. result_filter lower q songs = Inr ys))
         \<and> (\<forall>ys. result_filter lower q songs = Inr ys \<longrightarrow> result_filter lower q ys = Inr ys)"
proof (intro conjI allI impI)
  show "\<exists>ys. result_filter lower q songs = Inr ys" if "\<forall>song\<in>set songs. is_SongRecord song"
    using that by (simp add: result_filter_returns)
next
  fix ys
  assume r: "result_filter lower q songs = Inr ys"
  let ?n = "nat (limit q)"
  from result_filter_Inr(1) [OF r] assms have ys: "ys = take ?n (filter (kept lower q) songs)"
    by (simp add: slice_to_take)
  have "set ys \<subseteq> set songs"
    unfolding ys by (auto dest: in_set_takeD)
  with result_filter_Inr(2) [OF r] have "\<forall>song\<in>set ys. \<exists>b. rejects lower q song = Inr b"
    by blast
  then have "filter_loop lower q ys [] = Inr ([] @ filter (kept lower q) ys)"
    by (rule filter_loop_returns)
  also have "filter (kept lower q) ys = ys"
    unfolding ys by (rule filter_take_filter)
  finally have "result_filter lower q ys = Inr (slice_to (limit q) ys)"
    by (simp add: result_filter_def)
  also have "slice_to (limit q) ys = ys"
    using assms by (simp add: slice_to_take ys)
  finally show "result_filter lower q ys = Inr ys" .
qed

text \<open>
  The genre filter \<^verbatim>\<open>"pop"\<close> with the limit 1, on three records of which two match.
\<close>

theorem result_filter_idempotent_witness:
  "0 \<le> limit (default_query\<lparr>genre := Some ''pop'', limit := 1\<rparr>)
   \<and> is_SongRecord (JObj [(''genre'', JStr ''Rock'')])
   \<and> is_SongRecord (JObj [(''genre'', JStr ''Pop'')])
   \<and> is_SongRecord (JObj [(''genre'', JStr ''POP'')])
   \<and> (\<exists>ys. result_filter ascii_lower (default_query\<lparr>genre := Some ''pop'', limit := 1\<rparr>)
              [JObj [(''genre'', JStr ''Rock'')], JObj [(''genre'', JStr ''Pop'')],
               JObj [(''genre'', JStr ''POP'')]] = Inr ys)
   \<and> result_filter ascii_lower (default_query\<lparr>genre := Some ''pop'', limit := 1\<rparr>)
        [JObj [(''genre'', JStr ''Rock'')], JObj [(''genre'', JStr ''Pop'')],
         JObj [(''genre'', JStr ''POP'')]]
       = Inr [JObj [(''genre'', JStr ''Pop'')]]
   \<and> result_filter ascii_lower (default_query\<lparr>genre := Some ''pop'', limit := 1\<rparr>)
        [JObj [(''genre'', JStr ''Pop'')]]
       = Inr [JObj [(''genre'', JStr ''Pop'')]]"
proof -
  let ?q = "default_query\<lparr>genre := Some ''pop'', limit := 1\<rparr>"
  let ?songs = "[JObj [(''genre'', JStr ''Rock'')], JObj [(''genre'', JStr ''Pop'')],
                 JObj [(''genre'', JStr ''POP'')]]"
  have h: "0 \<le> limit ?q"
    by simp
  have t: "is_SongRecord (JObj [(''genre'', JStr ''Rock'')])"
    "is_SongRecord (JObj [(''genre'', JStr ''Pop'')])"
    "is_SongRecord (JObj [(''genre'', JStr ''POP'')])"
    by (simp_all add: is_SongRecord_def)
  then have t': "\<forall>song\<in>set ?songs. is_SongRecord song"
    by simp
  have e: "result_filter ascii_lower ?q ?songs = Inr [JObj [(''genre'', JStr ''Pop'')]]"
    by code_simp
  note inst = result_filter_idempotent [OF h, where lower = ascii_lower and songs = ?songs]
  from inst t' have r: "\<exists>ys. result_filter ascii_lower ?q ?songs = Inr ys"
    by (elim conjE impE)
  from inst
  have "result_filter ascii_lower ?q ?songs = Inr [JObj [(''genre'', JStr ''Pop'')]] \<longrightarrow>
          result_filter ascii_lower ?q [JObj [(''genre'', JStr ''Pop'')]] = Inr [JObj [(''genre'', JStr ''Pop'')]]"
    by (elim conjE allE)
  with e have "result_filter ascii_lower ?q [JObj [(''genre'', JStr ''Pop'')]] = Inr [JObj [(''genre'', JStr ''Pop'')]]"
    by (elim impE)
  with h t r e show ?thesis by (intro conjI)
qed

text \<open>
  A negative limit is outside QuerySpec; there the slice drops records from the end
  at each application.
\<close>

lemma result_filter_negative_limit_not_idempotent:
  "result_filter lower (default_query\<lparr>limit := - 1\<rparr>) [JObj [], JObj []] = Inr [JObj []]
   \<and> result_filter lower (default_query\<lparr>limit := - 1\<rparr>) [JObj []] = Inr []"
  by (simp add: result_filter_def rejects_def genre_rejects_def danceability_rejects_def
        slice_to_def default_query_def)

end
